theory Spec2Isabelle
  imports Complex_Main
begin

section \<open>JavaScript values and task objects\<close>

text \<open>
  The task modal (\<^verbatim>\<open>frontend/components/Task/TaskModal.tsx\<close>) reads and writes task
  objects by property name, also by computed names (\<^verbatim>\<open>{ ...prev, [field]: value }\<close>
  with \<^verbatim>\<open>field: string, value: any\<close>). A task is therefore a finite map from property
  names to JavaScript values. Numbers keep the three non-finite values apart, since
  \<^verbatim>\<open>typeof NaN === 'number'\<close>.
\<close>

datatype jsnumber = Num real | NaN | PosInfinity | NegInfinity

datatype jsval =
    JUndefined
  | JNull
  | JBool bool
  | JNum jsnumber
  | JStr string
  | JArr "jsval list"
  | JObj "(string \<times> jsval) list"

type_synonym Task = "string \<rightharpoonup> jsval"

text \<open>Truthiness, as used by \<^verbatim>\<open>&&\<close>, \<^verbatim>\<open>||\<close> and \<^verbatim>\<open>if\<close>.\<close>

fun truthy :: "jsval \<Rightarrow> bool" where
  "truthy JUndefined = False"
| "truthy JNull = False"
| "truthy (JBool b) = b"
| "truthy (JNum n) = (case n of Num x \<Rightarrow> x \<noteq> 0 | NaN \<Rightarrow> False | PosInfinity \<Rightarrow> True | NegInfinity \<Rightarrow> True)"
| "truthy (JStr s) = (s \<noteq> [])"
| "truthy (JArr xs) = True"
| "truthy (JObj kv) = True"

text \<open>Reading a property of a task: a missing property reads as \<^verbatim>\<open>undefined\<close>.\<close>

definition getProp :: "Task \<Rightarrow> string \<Rightarrow> jsval" where
  "getProp t k = (case t k of None \<Rightarrow> JUndefined | Some v \<Rightarrow> v)"

text \<open>Reading a property of a value (\<^verbatim>\<open>tag.name\<close>): primitives have no such property.\<close>

fun getMember :: "jsval \<Rightarrow> string \<Rightarrow> jsval" where
  "getMember (JObj kv) k = (case map_of kv k of None \<Rightarrow> JUndefined | Some v \<Rightarrow> v)"
| "getMember v k = JUndefined"

text \<open>
  \<^verbatim>\<open>task.tags?.map((tag) => tag.name) || []\<close>. The declared type is \<^verbatim>\<open>tags?: Tag[]\<close>:
  an absent list gives the empty list; for an array every element is read at \<^verbatim>\<open>name\<close>.
\<close>

fun tagNames :: "jsval \<Rightarrow> jsval list" where
  "tagNames (JArr xs) = map (\<lambda>tag. getMember tag ''name'') xs"
| "tagNames v = []"

text \<open>\<^verbatim>\<open>tags.map((tag) => ({ name: tag }))\<close>\<close>

definition tagObjects :: "jsval list \<Rightarrow> jsval" where
  "tagObjects ns = JArr (map (\<lambda>n. JObj [(''name'', n)]) ns)"

section \<open>getPriorityString\<close>

text \<open>
  \<^verbatim>\<open>
  const getPriorityString = (priority: PriorityType | number | undefined): PriorityType => {
      if (typeof priority === 'number') {
          const priorityNames: PriorityType[] = ['low', 'medium', 'high'];
          return priorityNames[priority] || 'medium';
      }
      return priority || 'medium';
  };
  \<close>
  Indexing an array with a number that is not one of its indices (negative, fractional,
  too large, \<^verbatim>\<open>NaN\<close>, infinite) reads \<^verbatim>\<open>undefined\<close>; it never raises.
\<close>

definition priorityNames :: "jsval list" where
  "priorityNames = [JStr ''low'', JStr ''medium'', JStr ''high'']"

fun arrayIndex :: "jsval list \<Rightarrow> jsnumber \<Rightarrow> jsval" where
  "arrayIndex xs (Num x) =
     (if 0 \<le> x \<and> of_int \<lfloor>x\<rfloor> = x \<and> nat \<lfloor>x\<rfloor> < length xs
      then xs ! nat \<lfloor>x\<rfloor> else JUndefined)"
| "arrayIndex xs n = JUndefined"

definition getPriorityString :: "jsval \<Rightarrow> jsval" where
  "getPriorityString priority =
     (case priority of
        JNum n \<Rightarrow>
          (if truthy (arrayIndex priorityNames n) then arrayIndex priorityNames n else JStr ''medium'')
      | _ \<Rightarrow> (if truthy priority then priority else JStr ''medium''))"

text \<open>
  Modelled from the spec: the type \<^verbatim>\<open>PriorityType\<close> is declared in
  \<^verbatim>\<open>entities/Task.ts\<close>, which is not part of the sources; the specification gives
  "priority (enumerated: low, medium, high)", and \<^verbatim>\<open>priorityNames\<close> above lists the
  same three members.
\<close>

definition isPriorityType :: "jsval \<Rightarrow> bool" where
  "isPriorityType v = (v = JStr ''low'' \<or> v = JStr ''medium'' \<or> v = JStr ''high'')"

text \<open>The declared parameter type \<^verbatim>\<open>PriorityType | number | undefined\<close>.\<close>

definition isPriorityArg :: "jsval \<Rightarrow> bool" where
  "isPriorityArg v = (case v of JNum n \<Rightarrow> True | JUndefined \<Rightarrow> True | _ \<Rightarrow> isPriorityType v)"

section \<open>The modal: props, state and what it sends out\<close>

text \<open>
  Everything the component calls outside itself is recorded, in order: the three
  services, the callbacks received as props, \<^verbatim>\<open>console.error\<close> and the toasts (the
  only channel by which the component shows a message to the user; the error toast is
  shown when deleting the task or creating a project fails).
\<close>

datatype call =
    FetchTaskById jsval
  | FetchTags
  | GetTaskIntelligenceEnabled
  | OnSave Task
  | OnClose
  | OnEditParentTask Task
  | ConsoleError string
  | ShowSuccessToast
  | ShowErrorToast

text \<open>
  The props \<^verbatim>\<open>isOpen\<close>, \<^verbatim>\<open>task\<close> and \<^verbatim>\<open>onEditParentTask\<close> (optional: present or not),
  the \<^verbatim>\<open>useState\<close> cells of the editing logic, the record of calls, and the number of
  promises and timers that are still pending. The analysis type \<^typ>\<open>'a\<close> is
  \<^verbatim>\<open>TaskAnalysis\<close>, declared with \<^verbatim>\<open>analyzeTaskName\<close> outside the sources. State that
  only drives the display (project search, expanded sections, confirmation dialog,
  timeline) is left out: none of the cells below is computed from it.
\<close>

record 'a modal =
  isOpen :: bool
  task :: Task
  hasOnEditParentTask :: bool
  formData :: Task
  tags :: "jsval list"
  isClosing :: bool
  localAvailableTags :: "jsval list"
  tagsLoaded :: bool
  parentTask :: "Task option"
  parentTaskLoading :: bool
  taskAnalysis :: "'a option"
  taskIntelligenceEnabled :: bool
  calls :: "call list"
  pendingParentFetches :: nat
  pendingFlagFetches :: nat
  pendingTagsFetches :: nat
  pendingCloseTimers :: nat

definition emit :: "call list \<Rightarrow> 'a modal \<Rightarrow> 'a modal" where
  "emit cs s = s\<lparr>calls := calls s @ cs\<rparr>"

text \<open>
  Modelled from the spec: the \<^verbatim>\<open>onClose\<close> prop is implemented by the parent component,
  which is not part of the sources. By the specification, closing takes the session from
  any open state to \<^verbatim>\<open>Closed\<close>: the parent answers the call by passing
  \<^verbatim>\<open>isOpen = false\<close>.
\<close>

definition onClose :: "'a modal \<Rightarrow> 'a modal" where
  "onClose s = (emit [OnClose] s)\<lparr>isOpen := False\<rparr>"

subsection \<open>Loading the parent task\<close>

text \<open>
  \<^verbatim>\<open>
  const fetchParentTask = async () => {
      if (task.recurring_parent_id && isOpen) {
          setParentTaskLoading(true);
          try {
              const parent = await fetchTaskById(task.recurring_parent_id);
              setParentTask(parent);
          } catch (error) {
              console.error('Error fetching parent task:', error);
              setParentTask(null);
          } finally {
              setParentTaskLoading(false);
          }
      } else {
          setParentTask(null);
      }
  };
  \<close>
  The function runs up to the \<^verbatim>\<open>await\<close>; the rest runs when the promise settles, as
  one of the two continuations below. Neither continuation reads \<^verbatim>\<open>isOpen\<close>.
\<close>

definition fetchParentTask :: "'a modal \<Rightarrow> 'a modal" where
  "fetchParentTask s =
     (if truthy (getProp (task s) ''recurring_parent_id'') \<and> isOpen s
      then (emit [FetchTaskById (getProp (task s) ''recurring_parent_id'')] s)
             \<lparr>parentTaskLoading := True,
              pendingParentFetches := Suc (pendingParentFetches s)\<rparr>
      else s\<lparr>parentTask := None\<rparr>)"

definition fetchParentTask_resolved :: "Task \<Rightarrow> 'a modal \<Rightarrow> 'a modal" where
  "fetchParentTask_resolved parent s =
     s\<lparr>parentTask := Some parent, parentTaskLoading := False\<rparr>"

definition fetchParentTask_rejected :: "'a modal \<Rightarrow> 'a modal" where
  "fetchParentTask_rejected s =
     (emit [ConsoleError ''Error fetching parent task:''] s)
       \<lparr>parentTask := None, parentTaskLoading := False\<rparr>"

text \<open>
  The first effect, with dependencies \<^verbatim>\<open>[task, projects, isOpen, taskIntelligenceEnabled]\<close>:
  \<^verbatim>\<open>
  setFormData(task);
  setTags(task.tags?.map((tag) => tag.name) || []);
  if (isOpen && task.name && taskIntelligenceEnabled) {
      const analysis = analyzeTaskName(task.name);
      setTaskAnalysis(analysis);
  } else {
      setTaskAnalysis(null);
  }
  ...
  fetchParentTask();
  \<close>
  The lines elided look up the name of the task's project for the project section.
  \<^verbatim>\<open>analyzeTaskName\<close> is imported from \<^verbatim>\<open>utils/taskIntelligenceService\<close>, outside the
  sources: it is the parameter \<open>analyzeTaskName\<close> of everything that follows.
\<close>

definition taskEffect :: "(jsval \<Rightarrow> 'a) \<Rightarrow> 'a modal \<Rightarrow> 'a modal" where
  "taskEffect analyzeTaskName s =
     fetchParentTask
       (s\<lparr>formData := task s,
          tags := tagNames (getProp (task s) ''tags''),
          taskAnalysis :=
            (if isOpen s \<and> truthy (getProp (task s) ''name'') \<and> taskIntelligenceEnabled s
             then Some (analyzeTaskName (getProp (task s) ''name''))
             else None)\<rparr>)"

subsection \<open>Loading the task-intelligence setting\<close>

text \<open>
  \<^verbatim>\<open>
  const fetchTaskIntelligenceSetting = async () => {
      if (isOpen) {
          try {
              const enabled = await getTaskIntelligenceEnabled();
              setTaskIntelligenceEnabled(enabled);
          } catch (error) {
              console.error('Error fetching task intelligence setting:', error);
              setTaskIntelligenceEnabled(true); // Default to enabled
          }
      }
  };
  \<close>
\<close>

definition fetchTaskIntelligenceSetting :: "'a modal \<Rightarrow> 'a modal" where
  "fetchTaskIntelligenceSetting s =
     (if isOpen s
      then (emit [GetTaskIntelligenceEnabled] s)
             \<lparr>pendingFlagFetches := Suc (pendingFlagFetches s)\<rparr>
      else s)"

definition fetchTaskIntelligenceSetting_resolved :: "bool \<Rightarrow> 'a modal \<Rightarrow> 'a modal" where
  "fetchTaskIntelligenceSetting_resolved enabled s = s\<lparr>taskIntelligenceEnabled := enabled\<rparr>"

definition fetchTaskIntelligenceSetting_rejected :: "'a modal \<Rightarrow> 'a modal" where
  "fetchTaskIntelligenceSetting_rejected s =
     (emit [ConsoleError ''Error fetching task intelligence setting:''] s)
       \<lparr>taskIntelligenceEnabled := True\<rparr>"

subsection \<open>Loading the available tags\<close>

text \<open>
  \<^verbatim>\<open>
  const loadTags = async () => {
      if (isOpen && !tagsLoaded) {
          try {
              const fetchedTags = await fetchTags();
              const safeTagsArray = Array.isArray(fetchedTags) ? fetchedTags : [];
              setLocalAvailableTags(safeTagsArray);
              setTagsLoaded(true);
          } catch (error: any) {
              console.error('Error fetching tags:', error);
              setLocalAvailableTags([]);
              setTagsLoaded(true); // Mark as loaded even on error to prevent retry loop
          }
      }
  };
  if (isOpen) { loadTags(); }
  \<close>
\<close>

definition loadTags :: "'a modal \<Rightarrow> 'a modal" where
  "loadTags s =
     (if isOpen s \<and> \<not> tagsLoaded s
      then (emit [FetchTags] s)\<lparr>pendingTagsFetches := Suc (pendingTagsFetches s)\<rparr>
      else s)"

definition loadTags_resolved :: "jsval \<Rightarrow> 'a modal \<Rightarrow> 'a modal" where
  "loadTags_resolved fetchedTags s =
     s\<lparr>localAvailableTags := (case fetchedTags of JArr xs \<Rightarrow> xs | _ \<Rightarrow> []),
       tagsLoaded := True\<rparr>"

definition loadTags_rejected :: "'a modal \<Rightarrow> 'a modal" where
  "loadTags_rejected s =
     (emit [ConsoleError ''Error fetching tags:''] s)
       \<lparr>localAvailableTags := [], tagsLoaded := True\<rparr>"

definition tagsEffect :: "'a modal \<Rightarrow> 'a modal" where
  "tagsEffect s = (if isOpen s then loadTags s else s)"

subsection \<open>Event handlers\<close>

text \<open>
  \<^verbatim>\<open>
  const handleEditParent = () => {
      if (parentTask && onEditParentTask) {
          onEditParentTask(parentTask);
          onClose(); // Close current modal
      }
  };
  \<close>
\<close>

definition handleEditParent :: "'a modal \<Rightarrow> 'a modal" where
  "handleEditParent s =
     (case parentTask s of
        Some p \<Rightarrow> (if hasOnEditParentTask s then onClose (emit [OnEditParentTask p] s) else s)
      | None \<Rightarrow> s)"

text \<open>
  \<^verbatim>\<open>
  const handleParentRecurrenceChange = (field: string, value: any) => {
      if (parentTask) {
          setParentTask({ ...parentTask, [field]: value });
      }
      setFormData((prev) => ({ ...prev, [field]: value, update_parent_recurrence: true }));
  };
  \<close>
  Both updates are queued by one call of the handler and applied by the same render.
\<close>

definition handleParentRecurrenceChange :: "string \<Rightarrow> jsval \<Rightarrow> 'a modal \<Rightarrow> 'a modal" where
  "handleParentRecurrenceChange field v s =
     s\<lparr>parentTask := (case parentTask s of Some p \<Rightarrow> Some (p(field \<mapsto> v)) | None \<Rightarrow> None),
       formData := (formData s)(field \<mapsto> v, ''update_parent_recurrence'' \<mapsto> JBool True)\<rparr>"

text \<open>
  \<^verbatim>\<open>
  const { name, value } = e.target;
  setFormData((prev) => ({ ...prev, [name]: value }));
  if (name === 'name' && taskIntelligenceEnabled) {
      const analysis = analyzeTaskName(value);
      setTaskAnalysis(analysis);
  }
  \<close>
  The value of a form control is a string.
\<close>

definition handleChange :: "(jsval \<Rightarrow> 'a) \<Rightarrow> string \<Rightarrow> string \<Rightarrow> 'a modal \<Rightarrow> 'a modal" where
  "handleChange analyzeTaskName name v s =
     (let s1 = s\<lparr>formData := (formData s)(name \<mapsto> JStr v)\<rparr>
      in if name = ''name'' \<and> taskIntelligenceEnabled s
         then s1\<lparr>taskAnalysis := Some (analyzeTaskName (JStr v))\<rparr>
         else s1)"

definition handleRecurrenceChange :: "string \<Rightarrow> jsval \<Rightarrow> 'a modal \<Rightarrow> 'a modal" where
  "handleRecurrenceChange field v s = s\<lparr>formData := (formData s)(field \<mapsto> v)\<rparr>"

definition handleTagsChange :: "string list \<Rightarrow> 'a modal \<Rightarrow> 'a modal" where
  "handleTagsChange newTags s =
     s\<lparr>tags := map JStr newTags,
       formData := (formData s)(''tags'' \<mapsto> tagObjects (map JStr newTags))\<rparr>"

text \<open>
  \<^verbatim>\<open>
  const handleClose = () => {
      setIsClosing(true);
      setTimeout(() => {
          onClose();
          setIsClosing(false);
          setTagsLoaded(false); // Reset tags loaded state for next modal open
      }, 300);
  };
  \<close>
  The Cancel button, the Escape key and a click outside the modal all call it.
\<close>

definition handleClose :: "'a modal \<Rightarrow> 'a modal" where
  "handleClose s = s\<lparr>isClosing := True, pendingCloseTimers := Suc (pendingCloseTimers s)\<rparr>"

definition handleClose_timeout :: "'a modal \<Rightarrow> 'a modal" where
  "handleClose_timeout s = (onClose s)\<lparr>isClosing := False, tagsLoaded := False\<rparr>"

text \<open>
  \<^verbatim>\<open>
  const handleSubmit = () => {
      onSave({ ...formData, tags: tags.map((tag) => ({ name: tag })) });
      ...
      showSuccessToast(taskLink);
      handleClose();
  };
  \<close>
\<close>

definition submitPayload :: "'a modal \<Rightarrow> Task" where
  "submitPayload s = (formData s)(''tags'' \<mapsto> tagObjects (tags s))"

definition handleSubmit :: "'a modal \<Rightarrow> 'a modal" where
  "handleSubmit s = handleClose (emit [OnSave (submitPayload s), ShowSuccessToast] s)"

text \<open>
  \<^verbatim>\<open>
  onStatusChange={(value: StatusType) => {
      // Universal rule: when setting status to in_progress, also add to today
      const updatedData = { ...formData, status: value };
      if (value === 'in_progress') {
          updatedData.today = true;
      }
      setFormData(updatedData);
  }}
  onPriorityChange={(value: PriorityType) => setFormData({ ...formData, priority: value })}
  \<close>
  \<^verbatim>\<open>StatusType\<close> is a set of strings declared outside the sources; the model takes any
  string.
\<close>

definition onStatusChange :: "string \<Rightarrow> 'a modal \<Rightarrow> 'a modal" where
  "onStatusChange v s =
     (let updatedData = (formData s)(''status'' \<mapsto> JStr v)
      in s\<lparr>formData :=
             (if v = ''in_progress'' then updatedData(''today'' \<mapsto> JBool True)
              else updatedData)\<rparr>)"

definition onPriorityChange :: "string \<Rightarrow> 'a modal \<Rightarrow> 'a modal" where
  "onPriorityChange v s = s\<lparr>formData := (formData s)(''priority'' \<mapsto> JStr v)\<rparr>"

text \<open>
  What the recurrence section is given:
  \<^verbatim>\<open>onEditParent={parentTask ? handleEditParent : undefined}\<close> and
  \<^verbatim>\<open>onParentRecurrenceChange={parentTask ? handleParentRecurrenceChange : undefined}\<close>.
\<close>

definition offersParentOperations :: "'a modal \<Rightarrow> bool" where
  "offersParentOperations s = (parentTask s \<noteq> None)"

section \<open>Events, rendering and effects\<close>

text \<open>
  One event is one turn of the event loop: a render by the parent with new props, a user
  action, a promise settling or a timer firing. \<open>ParentRender opn t pc\<close> passes
  \<^verbatim>\<open>isOpen = opn\<close>; \<open>t\<close> is \<open>Some\<close> of the new task object when the parent passes
  another object than before, and \<open>pc\<close> tells whether the \<^verbatim>\<open>projects\<close> array is another
  object (dependencies are compared by identity, which the contents do not determine).
  A promise or timer event only acts when such a promise or timer is pending, and a user
  action only when the modal is open, since a closed modal renders nothing. The handlers
  of the project section and of the delete dialog are not among the events: they write
  \<^verbatim>\<open>project_id\<close>, display state and toasts, and a confirmed deletion ends in
  \<^verbatim>\<open>handleClose\<close>, which is an event.
\<close>

datatype event =
    ParentRender bool "Task option" bool
  | FetchParentResolved Task
  | FetchParentRejected
  | FlagResolved bool
  | FlagRejected
  | TagsResolved jsval
  | TagsRejected
  | HandleChange string string
  | HandleRecurrenceChange string jsval
  | HandleParentRecurrenceChange string jsval
  | HandleTagsChange "string list"
  | HandleEditParent
  | HandleSubmit
  | HandleClose
  | CloseTimerFired
  | OnStatusChange string
  | OnPriorityChange string

text \<open>
  \<open>handle\<close> gives the state that the render following the event shows, before the effects
  of that render run.
\<close>

fun handle :: "(jsval \<Rightarrow> 'a) \<Rightarrow> event \<Rightarrow> 'a modal \<Rightarrow> 'a modal" where
  "handle an (ParentRender opn t pc) s =
     s\<lparr>isOpen := opn, task := (case t of Some t' \<Rightarrow> t' | None \<Rightarrow> task s)\<rparr>"
| "handle an (FetchParentResolved parent) s =
     (if 0 < pendingParentFetches s
      then fetchParentTask_resolved parent
             (s\<lparr>pendingParentFetches := pendingParentFetches s - 1\<rparr>)
      else s)"
| "handle an FetchParentRejected s =
     (if 0 < pendingParentFetches s
      then fetchParentTask_rejected (s\<lparr>pendingParentFetches := pendingParentFetches s - 1\<rparr>)
      else s)"
| "handle an (FlagResolved enabled) s =
     (if 0 < pendingFlagFetches s
      then fetchTaskIntelligenceSetting_resolved enabled
             (s\<lparr>pendingFlagFetches := pendingFlagFetches s - 1\<rparr>)
      else s)"
| "handle an FlagRejected s =
     (if 0 < pendingFlagFetches s
      then fetchTaskIntelligenceSetting_rejected
             (s\<lparr>pendingFlagFetches := pendingFlagFetches s - 1\<rparr>)
      else s)"
| "handle an (TagsResolved fetchedTags) s =
     (if 0 < pendingTagsFetches s
      then loadTags_resolved fetchedTags (s\<lparr>pendingTagsFetches := pendingTagsFetches s - 1\<rparr>)
      else s)"
| "handle an TagsRejected s =
     (if 0 < pendingTagsFetches s
      then loadTags_rejected (s\<lparr>pendingTagsFetches := pendingTagsFetches s - 1\<rparr>)
      else s)"
| "handle an (HandleChange name v) s = (if isOpen s then handleChange an name v s else s)"
| "handle an (HandleRecurrenceChange field v) s =
     (if isOpen s then handleRecurrenceChange field v s else s)"
| "handle an (HandleParentRecurrenceChange field v) s =
     (if isOpen s \<and> offersParentOperations s then handleParentRecurrenceChange field v s else s)"
| "handle an (HandleTagsChange newTags) s = (if isOpen s then handleTagsChange newTags s else s)"
| "handle an HandleEditParent s =
     (if isOpen s \<and> offersParentOperations s then handleEditParent s else s)"
| "handle an HandleSubmit s = (if isOpen s then handleSubmit s else s)"
| "handle an HandleClose s = (if isOpen s then handleClose s else s)"
| "handle an CloseTimerFired s =
     (if 0 < pendingCloseTimers s
      then handleClose_timeout (s\<lparr>pendingCloseTimers := pendingCloseTimers s - 1\<rparr>)
      else s)"
| "handle an (OnStatusChange v) s = (if isOpen s then onStatusChange v s else s)"
| "handle an (OnPriorityChange v) s = (if isOpen s then onPriorityChange v s else s)"

text \<open>
  Whether the event itself replaces an object among the dependencies of the first effect.
\<close>

fun newObjects :: "event \<Rightarrow> bool" where
  "newObjects (ParentRender opn t pc) = (t \<noteq> None \<or> pc)"
| "newObjects e = False"

text \<open>
  After the render that follows an event, each effect runs when one of its dependencies
  differs from the render before, in the order in which the component declares them:
  \<^verbatim>\<open>[task, projects, isOpen, taskIntelligenceEnabled]\<close>, \<^verbatim>\<open>[isOpen]\<close>,
  \<^verbatim>\<open>[isOpen, tagsLoaded]\<close>. The synchronous part of an effect writes no dependency of
  any effect, so one pass is all that happens.
\<close>

definition runEffects :: "(jsval \<Rightarrow> 'a) \<Rightarrow> bool \<Rightarrow> 'a modal \<Rightarrow> 'a modal \<Rightarrow> 'a modal" where
  "runEffects an objs old new =
     (let s1 = (if objs \<or> isOpen old \<noteq> isOpen new
                   \<or> taskIntelligenceEnabled old \<noteq> taskIntelligenceEnabled new
                then taskEffect an new else new);
          s2 = (if isOpen old \<noteq> isOpen new then fetchTaskIntelligenceSetting s1 else s1)
      in if isOpen old \<noteq> isOpen new \<or> tagsLoaded old \<noteq> tagsLoaded new
         then tagsEffect s2 else s2)"

definition step :: "(jsval \<Rightarrow> 'a) \<Rightarrow> event \<Rightarrow> 'a modal \<Rightarrow> 'a modal" where
  "step an e s = runEffects an (newObjects e) s (handle an e s)"

fun run :: "(jsval \<Rightarrow> 'a) \<Rightarrow> event list \<Rightarrow> 'a modal \<Rightarrow> 'a modal" where
  "run an [] s = s"
| "run an (e # es) s = run an es (step an e s)"

text \<open>
  Mounting: the \<^verbatim>\<open>useState\<close> initial values, then every effect once.
\<close>

definition initial :: "bool \<Rightarrow> Task \<Rightarrow> bool \<Rightarrow> 'a modal" where
  "initial opn t edit =
     \<lparr>isOpen = opn, task = t, hasOnEditParentTask = edit,
      formData = t, tags = tagNames (getProp t ''tags''),
      isClosing = False, localAvailableTags = [], tagsLoaded = False,
      parentTask = None, parentTaskLoading = False,
      taskAnalysis = None, taskIntelligenceEnabled = True,
      calls = [],
      pendingParentFetches = 0, pendingFlagFetches = 0, pendingTagsFetches = 0,
      pendingCloseTimers = 0\<rparr>"

definition mount :: "(jsval \<Rightarrow> 'a) \<Rightarrow> bool \<Rightarrow> Task \<Rightarrow> bool \<Rightarrow> 'a modal" where
  "mount an opn t edit =
     tagsEffect (fetchTaskIntelligenceSetting (taskEffect an (initial opn t edit)))"

text \<open>
  Modelled from the spec: the states of the editing session, \<^verbatim>\<open>Closed\<close>,
  \<^verbatim>\<open>Open(no-parent)\<close>, \<^verbatim>\<open>Open(parent-loading)\<close> and \<^verbatim>\<open>Open(parent-loaded)\<close>, are
  names of the specification; the component has no such variable. They are read off the
  prop and the two cells the recurrence section is given.
\<close>

datatype session = Closed | OpenNoParent | OpenParentLoading | OpenParentLoaded

definition sessionState :: "'a modal \<Rightarrow> session" where
  "sessionState s =
     (if \<not> isOpen s then Closed
      else if parentTaskLoading s then OpenParentLoading
      else if parentTask s \<noteq> None then OpenParentLoaded
      else OpenNoParent)"

section \<open>Reading the record of calls\<close>

text \<open>The toasts are the only messages the component shows to the user.\<close>

definition userMessages :: "call list \<Rightarrow> call list" where
  "userMessages cs = filter (\<lambda>c. c = ShowSuccessToast \<or> c = ShowErrorToast) cs"

fun isFetchTaskById :: "call \<Rightarrow> bool" where
  "isFetchTaskById (FetchTaskById v) = True"
| "isFetchTaskById c = False"

text \<open>The calls of \<^verbatim>\<open>fetchTaskById\<close> made so far, and the number of calls of \<^verbatim>\<open>fetchTags\<close>.\<close>

definition parentFetches :: "'a modal \<Rightarrow> call list" where
  "parentFetches s = filter isFetchTaskById (calls s)"

definition fetchTagsCount :: "'a modal \<Rightarrow> nat" where
  "fetchTagsCount s = length (filter (\<lambda>c. c = FetchTags) (calls s))"

text \<open>The payloads handed to \<^verbatim>\<open>onSave\<close>, oldest first.\<close>

fun savedPayloads :: "call list \<Rightarrow> Task list" where
  "savedPayloads [] = []"
| "savedPayloads (OnSave t # cs) = t # savedPayloads cs"
| "savedPayloads (c # cs) = savedPayloads cs"

text \<open>Whether \<^verbatim>\<open>onClose\<close> is called before the first call of \<^verbatim>\<open>onEditParentTask\<close>.\<close>

fun isOnEditParentTask :: "call \<Rightarrow> bool" where
  "isOnEditParentTask (OnEditParentTask p) = True"
| "isOnEditParentTask c = False"

definition closesBeforeSignal :: "call list \<Rightarrow> bool" where
  "closesBeforeSignal cs = (OnClose \<in> set (takeWhile (\<lambda>c. \<not> isOnEditParentTask c) cs))"

section \<open>Runs of one session\<close>

text \<open>
  The session is open before each event of the run and after the last: nothing in the
  run closes it.
\<close>

fun staysOpen :: "(jsval \<Rightarrow> 'a) \<Rightarrow> event list \<Rightarrow> 'a modal \<Rightarrow> bool" where
  "staysOpen an [] s = isOpen s"
| "staysOpen an (e # es) s = (isOpen s \<and> staysOpen an es (step an e s))"


section \<open>A sample session\<close>

text \<open>
  Modelled from the spec: \<^verbatim>\<open>analyzeTaskName\<close> (\<^verbatim>\<open>utils/taskIntelligenceService\<close>) is not
  part of the sources. The specification describes it as a pure function from the title
  to a small suggestion set (candidate due date, candidate priority keyword) and fixes one
  case: the title "Pay rent tomorrow" yields a due-date candidate for "tomorrow". The
  stand-in below does that much and no more: it proposes a due date for each word
  \<^verbatim>\<open>tomorrow\<close> of the title. It is used to run the model on examples; every theorem
  about the modal holds for any analyzer.
\<close>

datatype suggestion = DueDateCandidate string | PriorityCandidate string

fun titleWords :: "string \<Rightarrow> string list" where
  "titleWords [] = [[]]"
| "titleWords (c # cs) =
     (if c = CHR '' '' then [] # titleWords cs
      else (case titleWords cs of [] \<Rightarrow> [[c]] | w # ws \<Rightarrow> (c # w) # ws))"

definition exampleAnalyzer :: "jsval \<Rightarrow> suggestion list" where
  "exampleAnalyzer v =
     (case v of
        JStr title \<Rightarrow> map DueDateCandidate (filter (\<lambda>w. w = ''tomorrow'') (titleWords title))
      | _ \<Rightarrow> [])"

text \<open>
  A recurring parent ("Pay rent", monthly), one generated instance of it, a new task
  without a title yet, and a tag list.
\<close>

definition exampleParent :: Task where
  "exampleParent =
     Map.empty(''id'' \<mapsto> JNum (Num 1), ''name'' \<mapsto> JStr ''Pay rent'',
               ''recurrence_type'' \<mapsto> JStr ''monthly'')"

definition exampleChild :: Task where
  "exampleChild =
     Map.empty(''id'' \<mapsto> JNum (Num 2), ''name'' \<mapsto> JStr ''Pay rent tomorrow'',
               ''recurring_parent_id'' \<mapsto> JNum (Num 1))"

definition exampleUntitled :: Task where
  "exampleUntitled = Map.empty(''name'' \<mapsto> JStr [], ''status'' \<mapsto> JStr ''not_started'')"

definition exampleTags :: jsval where
  "exampleTags = JArr [JObj [(''name'', JStr ''rent'')]]"

text \<open>The modal mounted closed on the instance.\<close>

definition exampleClosed :: "suggestion list modal" where
  "exampleClosed = mount exampleAnalyzer False exampleChild True"

text \<open>The modal mounted open on the instance: parent, setting and tags are being fetched.\<close>

definition exampleOpened :: "suggestion list modal" where
  "exampleOpened = mount exampleAnalyzer True exampleChild True"

text \<open>The same session once the parent has arrived.\<close>

definition exampleLoaded :: "suggestion list modal" where
  "exampleLoaded = step exampleAnalyzer (FetchParentResolved exampleParent) exampleOpened"

text \<open>The same session cancelled while the parent is still being fetched.\<close>

definition exampleClosedEarly :: "suggestion list modal" where
  "exampleClosedEarly = run exampleAnalyzer [HandleClose, CloseTimerFired] exampleOpened"


text \<open>
  The session with the parent loaded, once the tags have arrived and the user has gone
  over to the parent.
\<close>

definition exampleParentOpened :: "suggestion list modal" where
  "exampleParentOpened =
     run exampleAnalyzer [TagsResolved (JArr []), HandleEditParent] exampleLoaded"

section \<open>Basic facts\<close>

lemmas modal_defs = emit_def onClose_def fetchParentTask_def fetchParentTask_resolved_def
  fetchParentTask_rejected_def taskEffect_def fetchTaskIntelligenceSetting_def
  fetchTaskIntelligenceSetting_resolved_def fetchTaskIntelligenceSetting_rejected_def
  loadTags_def loadTags_resolved_def loadTags_rejected_def tagsEffect_def
  handleEditParent_def handleParentRecurrenceChange_def handleChange_def
  handleRecurrenceChange_def handleTagsChange_def handleClose_def handleClose_timeout_def
  submitPayload_def handleSubmit_def onStatusChange_def onPriorityChange_def
  offersParentOperations_def runEffects_def step_def Let_def

lemmas handler_defs = emit_def onClose_def fetchParentTask_resolved_def
  fetchParentTask_rejected_def
  fetchTaskIntelligenceSetting_resolved_def fetchTaskIntelligenceSetting_rejected_def
  loadTags_resolved_def loadTags_rejected_def
  handleEditParent_def handleParentRecurrenceChange_def handleChange_def
  handleRecurrenceChange_def handleTagsChange_def handleClose_def handleClose_timeout_def
  submitPayload_def handleSubmit_def onStatusChange_def onPriorityChange_def
  offersParentOperations_def Let_def

lemma getProp_upd:
  "getProp (t(k \<mapsto> v)) k' = (if k' = k then v else getProp t k')"
  by (simp add: getProp_def)

lemma savedPayloads_append [simp]:
  "savedPayloads (cs @ ds) = savedPayloads cs @ savedPayloads ds"
  by (induction cs rule: savedPayloads.induct) simp_all

subsection \<open>What each effect leaves alone\<close>

lemma fetchTagsCount_emit [simp]:
  "fetchTagsCount (emit cs s) = fetchTagsCount s + length (filter (\<lambda>c. c = FetchTags) cs)"
  by (simp add: fetchTagsCount_def emit_def)

lemma fetchTagsCount_update [simp]:
  "fetchTagsCount (s\<lparr>isOpen := a\<rparr>) = fetchTagsCount s"
  "fetchTagsCount (s\<lparr>task := b\<rparr>) = fetchTagsCount s"
  "fetchTagsCount (s\<lparr>formData := c\<rparr>) = fetchTagsCount s"
  "fetchTagsCount (s\<lparr>tags := d\<rparr>) = fetchTagsCount s"
  "fetchTagsCount (s\<lparr>isClosing := e\<rparr>) = fetchTagsCount s"
  "fetchTagsCount (s\<lparr>localAvailableTags := f\<rparr>) = fetchTagsCount s"
  "fetchTagsCount (s\<lparr>tagsLoaded := g\<rparr>) = fetchTagsCount s"
  "fetchTagsCount (s\<lparr>parentTask := h\<rparr>) = fetchTagsCount s"
  "fetchTagsCount (s\<lparr>parentTaskLoading := i\<rparr>) = fetchTagsCount s"
  "fetchTagsCount (s\<lparr>taskAnalysis := j\<rparr>) = fetchTagsCount s"
  "fetchTagsCount (s\<lparr>taskIntelligenceEnabled := k\<rparr>) = fetchTagsCount s"
  "fetchTagsCount (s\<lparr>pendingParentFetches := l\<rparr>) = fetchTagsCount s"
  "fetchTagsCount (s\<lparr>pendingFlagFetches := m\<rparr>) = fetchTagsCount s"
  "fetchTagsCount (s\<lparr>pendingTagsFetches := n\<rparr>) = fetchTagsCount s"
  "fetchTagsCount (s\<lparr>pendingCloseTimers := p\<rparr>) = fetchTagsCount s"
  by (simp_all add: fetchTagsCount_def)

lemma parentFetches_update:
  "parentFetches (s\<lparr>isOpen := a\<rparr>) = parentFetches s"
  "parentFetches (s\<lparr>task := b\<rparr>) = parentFetches s"
  by (simp_all add: parentFetches_def)

lemma emit_fields [simp]:
  "isOpen (emit cs s) = isOpen s" "tagsLoaded (emit cs s) = tagsLoaded s"
  "taskIntelligenceEnabled (emit cs s) = taskIntelligenceEnabled s"
  "taskAnalysis (emit cs s) = taskAnalysis s" "task (emit cs s) = task s"
  "parentTask (emit cs s) = parentTask s"
  "pendingParentFetches (emit cs s) = pendingParentFetches s"
  "pendingTagsFetches (emit cs s) = pendingTagsFetches s"
  "calls (emit cs s) = calls s @ cs"
  by (simp_all add: emit_def)

lemma fetchParentTask_fields [simp]:
  "isOpen (fetchParentTask s) = isOpen s" "tagsLoaded (fetchParentTask s) = tagsLoaded s"
  "taskIntelligenceEnabled (fetchParentTask s) = taskIntelligenceEnabled s"
  "taskAnalysis (fetchParentTask s) = taskAnalysis s"
  "fetchTagsCount (fetchParentTask s) = fetchTagsCount s"
  by (simp_all add: fetchParentTask_def)

lemma fetchParentTask_parent:
  "parentTask (fetchParentTask s)
     = (if truthy (getProp (task s) ''recurring_parent_id'') \<and> isOpen s
        then parentTask s else None)"
  "pendingParentFetches (fetchParentTask s)
     = pendingParentFetches s
       + (if truthy (getProp (task s) ''recurring_parent_id'') \<and> isOpen s then 1 else 0)"
  "parentFetches (fetchParentTask s)
     = parentFetches s
       @ (if truthy (getProp (task s) ''recurring_parent_id'') \<and> isOpen s
          then [FetchTaskById (getProp (task s) ''recurring_parent_id'')] else [])"
  by (simp_all add: fetchParentTask_def parentFetches_def emit_def)

lemma taskEffect_fields [simp]:
  "isOpen (taskEffect an s) = isOpen s" "tagsLoaded (taskEffect an s) = tagsLoaded s"
  "taskIntelligenceEnabled (taskEffect an s) = taskIntelligenceEnabled s"
  "fetchTagsCount (taskEffect an s) = fetchTagsCount s"
  "taskAnalysis (taskEffect an s) =
     (if isOpen s \<and> truthy (getProp (task s) ''name'') \<and> taskIntelligenceEnabled s
      then Some (an (getProp (task s) ''name'')) else None)"
  by (simp_all add: taskEffect_def)

lemma taskEffect_parent:
  "parentTask (taskEffect an s)
     = (if truthy (getProp (task s) ''recurring_parent_id'') \<and> isOpen s
        then parentTask s else None)"
  "pendingParentFetches (taskEffect an s)
     = pendingParentFetches s
       + (if truthy (getProp (task s) ''recurring_parent_id'') \<and> isOpen s then 1 else 0)"
  "parentFetches (taskEffect an s)
     = parentFetches s
       @ (if truthy (getProp (task s) ''recurring_parent_id'') \<and> isOpen s
          then [FetchTaskById (getProp (task s) ''recurring_parent_id'')] else [])"
  by (simp_all add: taskEffect_def fetchParentTask_parent) (simp_all add: parentFetches_def)

lemma fetchTaskIntelligenceSetting_fields [simp]:
  "isOpen (fetchTaskIntelligenceSetting s) = isOpen s"
  "tagsLoaded (fetchTaskIntelligenceSetting s) = tagsLoaded s"
  "taskIntelligenceEnabled (fetchTaskIntelligenceSetting s) = taskIntelligenceEnabled s"
  "taskAnalysis (fetchTaskIntelligenceSetting s) = taskAnalysis s"
  "fetchTagsCount (fetchTaskIntelligenceSetting s) = fetchTagsCount s"
  "parentTask (fetchTaskIntelligenceSetting s) = parentTask s"
  "pendingParentFetches (fetchTaskIntelligenceSetting s) = pendingParentFetches s"
  "parentFetches (fetchTaskIntelligenceSetting s) = parentFetches s"
  by (simp_all add: fetchTaskIntelligenceSetting_def parentFetches_def fetchTagsCount_def
      emit_def)

lemma tagsEffect_fields [simp]:
  "isOpen (tagsEffect s) = isOpen s" "tagsLoaded (tagsEffect s) = tagsLoaded s"
  "taskIntelligenceEnabled (tagsEffect s) = taskIntelligenceEnabled s"
  "taskAnalysis (tagsEffect s) = taskAnalysis s"
  "fetchTagsCount (tagsEffect s)
     = fetchTagsCount s + (if isOpen s \<and> \<not> tagsLoaded s then 1 else 0)"
  "parentTask (tagsEffect s) = parentTask s"
  "pendingParentFetches (tagsEffect s) = pendingParentFetches s"
  "parentFetches (tagsEffect s) = parentFetches s"
  by (simp_all add: tagsEffect_def loadTags_def parentFetches_def fetchTagsCount_def emit_def)

lemma closed_taskEffect:
  "\<not> isOpen s \<Longrightarrow>
     taskEffect an s = s\<lparr>formData := task s, tags := tagNames (getProp (task s) ''tags''),
                          taskAnalysis := None, parentTask := None\<rparr>"
  by (simp add: taskEffect_def fetchParentTask_def)

subsection \<open>The pass over the effects\<close>

lemma runEffects_isOpen [simp]: "isOpen (runEffects an objs old new) = isOpen new"
  by (simp add: runEffects_def Let_def)

lemma runEffects_tagsLoaded [simp]: "tagsLoaded (runEffects an objs old new) = tagsLoaded new"
  by (simp add: runEffects_def Let_def)

lemma runEffects_enabled [simp]:
  "taskIntelligenceEnabled (runEffects an objs old new) = taskIntelligenceEnabled new"
  by (simp add: runEffects_def Let_def)

lemma runEffects_fetchTagsCount:
  "fetchTagsCount (runEffects an objs old new) =
     fetchTagsCount new +
       (if (isOpen old \<noteq> isOpen new \<or> tagsLoaded old \<noteq> tagsLoaded new)
           \<and> isOpen new \<and> \<not> tagsLoaded new then 1 else 0)"
  by (simp add: runEffects_def Let_def)


lemma runEffects_unchanged:
  "isOpen old = isOpen new \<Longrightarrow> taskIntelligenceEnabled old = taskIntelligenceEnabled new
     \<Longrightarrow> tagsLoaded old = tagsLoaded new \<Longrightarrow> runEffects an False old new = new"
  by (simp add: runEffects_def)

lemma runEffects_closing:
  "isOpen old \<Longrightarrow> \<not> isOpen new \<Longrightarrow> runEffects an objs old new = taskEffect an new"
  by (simp add: runEffects_def Let_def fetchTaskIntelligenceSetting_def tagsEffect_def)

lemma runEffects_opening:
  "\<not> isOpen old \<Longrightarrow> isOpen new \<Longrightarrow>
     runEffects an objs old new = tagsEffect (fetchTaskIntelligenceSetting (taskEffect an new))"
  by (simp add: runEffects_def Let_def)

subsection \<open>Single events\<close>

lemma handle_isOpen:
  "isOpen (handle an e s) =
     (case e of
        ParentRender opn t pc \<Rightarrow> opn
      | CloseTimerFired \<Rightarrow> isOpen s \<and> pendingCloseTimers s = 0
      | HandleEditParent \<Rightarrow> isOpen s \<and> (parentTask s = None \<or> \<not> hasOnEditParentTask s)
      | _ \<Rightarrow> isOpen s)"
  by (cases e) (auto simp add: handler_defs split: option.splits)

lemma step_isOpen: "isOpen (step an e s) = isOpen (handle an e s)"
  by (simp add: step_def)

lemma handle_fetchTagsCount [simp]: "fetchTagsCount (handle an e s) = fetchTagsCount s"
  by (cases e) (simp_all add: handler_defs fetchTagsCount_def split: option.splits)

lemma handle_keeps_tagsLoaded:
  "isOpen (handle an e s) \<Longrightarrow> tagsLoaded s \<Longrightarrow> tagsLoaded (handle an e s)"
  by (cases e) (simp_all add: handler_defs split: option.splits if_splits)

lemma step_HandleParentRecurrenceChange:
  "isOpen s \<Longrightarrow> parentTask s = Some p \<Longrightarrow>
     step an (HandleParentRecurrenceChange field v) s = handleParentRecurrenceChange field v s"
  by (simp add: step_def offersParentOperations_def runEffects_unchanged
      handleParentRecurrenceChange_def)

lemma step_HandleSubmit: "isOpen s \<Longrightarrow> step an HandleSubmit s = handleSubmit s"
  by (simp add: step_def runEffects_unchanged handleSubmit_def handleClose_def)

lemma step_HandleClose: "isOpen s \<Longrightarrow> step an HandleClose s = handleClose s"
  by (simp add: step_def runEffects_unchanged handleClose_def)


lemma step_FetchParentResolved:
  "0 < pendingParentFetches s \<Longrightarrow>
     step an (FetchParentResolved p) s
       = fetchParentTask_resolved p (s\<lparr>pendingParentFetches := pendingParentFetches s - 1\<rparr>)"
  by (simp add: step_def runEffects_unchanged fetchParentTask_resolved_def)

lemma step_HandleEditParent:
  "isOpen s \<Longrightarrow> parentTask s = Some p \<Longrightarrow> hasOnEditParentTask s \<Longrightarrow>
     step an HandleEditParent s = taskEffect an (onClose (emit [OnEditParentTask p] s))"
  by (simp add: step_def offersParentOperations_def handleEditParent_def runEffects_closing
      onClose_def)

lemma step_HandleEditParent_noop:
  "parentTask s = None \<or> \<not> hasOnEditParentTask s \<Longrightarrow> step an HandleEditParent s = s"
  by (auto simp add: step_def offersParentOperations_def handleEditParent_def
      runEffects_unchanged split: option.splits)

lemma step_CloseTimerFired:
  "isOpen s \<Longrightarrow> 0 < pendingCloseTimers s \<Longrightarrow>
     step an CloseTimerFired s
       = taskEffect an
           (handleClose_timeout (s\<lparr>pendingCloseTimers := pendingCloseTimers s - 1\<rparr>))"
  by (simp add: step_def runEffects_closing handleClose_timeout_def onClose_def)

lemma handleParentRecurrenceChange_fields:
  "parentTask (handleParentRecurrenceChange field v s)
     = (case parentTask s of Some p \<Rightarrow> Some (p(field \<mapsto> v)) | None \<Rightarrow> None)"
  "formData (handleParentRecurrenceChange field v s)
     = (formData s)(field \<mapsto> v, ''update_parent_recurrence'' \<mapsto> JBool True)"
  "tags (handleParentRecurrenceChange field v s) = tags s"
  "calls (handleParentRecurrenceChange field v s) = calls s"
  "isOpen (handleParentRecurrenceChange field v s) = isOpen s"
  by (simp_all add: handleParentRecurrenceChange_def)

lemma handleSubmit_calls:
  "calls (handleSubmit s) = calls s @ [OnSave (submitPayload s), ShowSuccessToast]"
  by (simp add: handleSubmit_def handleClose_def emit_def)

lemma submitPayload_props:
  "getProp (submitPayload s) ''tags'' = tagObjects (tags s)"
  "k \<noteq> ''tags'' \<Longrightarrow> getProp (submitPayload s) k = getProp (formData s) k"
  by (simp_all add: submitPayload_def getProp_def)

subsection \<open>One session fetches the tags once\<close>

lemma step_open_no_fetchTags:
  assumes "isOpen s" and "isOpen (step an e s)"
  shows "fetchTagsCount (step an e s) = fetchTagsCount s"
proof -
  from assms(2) have o: "isOpen (handle an e s)" by (simp add: step_def)
  with handle_keeps_tagsLoaded [of an e s]
  have "tagsLoaded s \<Longrightarrow> tagsLoaded (handle an e s)" by simp
  with assms(1) o show ?thesis
    by (auto simp add: step_def runEffects_fetchTagsCount)
qed

lemma run_open_no_fetchTags:
  "staysOpen an es s \<Longrightarrow> fetchTagsCount (run an es s) = fetchTagsCount s"
proof (induction es arbitrary: s)
  case Nil
  then show ?case by simp
next
  case (Cons e es)
  then have o: "isOpen s" and rest: "staysOpen an es (step an e s)" by simp_all
  from rest have "isOpen (step an e s)" by (cases es) simp_all
  with o have "fetchTagsCount (step an e s) = fetchTagsCount s"
    by (rule step_open_no_fetchTags)
  with Cons.IH [OF rest] show ?case by simp
qed

lemma opening_fetchTags:
  "\<not> isOpen s \<Longrightarrow>
     fetchTagsCount (step an (ParentRender True t pc) s)
       = fetchTagsCount s + (if tagsLoaded s then 0 else 1)"
  by (simp add: step_def runEffects_fetchTagsCount)

lemma initial_fetchTagsCount: "fetchTagsCount (initial opn t edit) = 0"
  by (simp add: fetchTagsCount_def initial_def)

lemma mount_isOpen: "isOpen (mount an opn t edit) = opn"
  by (simp add: mount_def) (simp add: initial_def)

lemma mount_fetchTagsCount: "fetchTagsCount (mount an opn t edit) = (if opn then 1 else 0)"
  by (simp add: mount_def initial_fetchTagsCount) (simp add: initial_def)

subsection \<open>No analysis while the setting is off\<close>





subsection \<open>The sample session\<close>


lemma exampleOpened_fields:
  "isOpen exampleOpened" "parentTaskLoading exampleOpened" "parentTask exampleOpened = None"
  "taskIntelligenceEnabled exampleOpened" "\<not> tagsLoaded exampleOpened"
  "hasOnEditParentTask exampleOpened"
  "pendingParentFetches exampleOpened = 1" "pendingFlagFetches exampleOpened = 1"
  "pendingTagsFetches exampleOpened = 1" "pendingCloseTimers exampleOpened = 0"
  "calls exampleOpened = [FetchTaskById (JNum (Num 1)), GetTaskIntelligenceEnabled, FetchTags]"
  "taskAnalysis exampleOpened = Some [DueDateCandidate ''tomorrow'']"
  "formData exampleOpened = exampleChild" "tags exampleOpened = []"
  "task exampleOpened = exampleChild"
  by (simp_all add: exampleOpened_def mount_def initial_def exampleChild_def
      exampleAnalyzer_def modal_defs getProp_def)

lemma exampleClosed_fields:
  "\<not> isOpen exampleClosed" "taskIntelligenceEnabled exampleClosed"
  "\<not> tagsLoaded exampleClosed" "fetchTagsCount exampleClosed = 0"
  "parentTask exampleClosed = None" "calls exampleClosed = []"
  by (simp_all add: exampleClosed_def mount_isOpen mount_fetchTagsCount)
    (simp_all add: mount_def initial_def modal_defs)

lemma exampleLoaded_fields:
  "isOpen exampleLoaded" "parentTask exampleLoaded = Some exampleParent"
  "\<not> parentTaskLoading exampleLoaded" "hasOnEditParentTask exampleLoaded"
  "formData exampleLoaded = exampleChild" "tags exampleLoaded = []"
  "taskIntelligenceEnabled exampleLoaded"
  "calls exampleLoaded = [FetchTaskById (JNum (Num 1)), GetTaskIntelligenceEnabled, FetchTags]"
  by (simp_all add: exampleLoaded_def step_FetchParentResolved exampleOpened_fields
      fetchParentTask_resolved_def)

lemma exampleClosedEarly_fields:
  "\<not> isOpen exampleClosedEarly" "parentTask exampleClosedEarly = None"
  "pendingParentFetches exampleClosedEarly = 1" "parentTaskLoading exampleClosedEarly"
  by (simp_all add: exampleClosedEarly_def step_HandleClose step_CloseTimerFired
      exampleOpened_fields handleClose_def handleClose_timeout_def onClose_def emit_def
      closed_taskEffect)


text \<open>
  The array \<^verbatim>\<open>['low', 'medium', 'high']\<close> read at a number: only 0, 1 and 2 are indices.
\<close>

lemma arrayIndex_priorityNames:
  "arrayIndex priorityNames n =
     (if n = Num 0 then JStr ''low'' else if n = Num 1 then JStr ''medium''
      else if n = Num 2 then JStr ''high'' else JUndefined)"
proof (cases n)
  case (Num x)
  have len: "length priorityNames = 3" by (simp add: priorityNames_def)
  show ?thesis
  proof (cases "0 \<le> x \<and> of_int \<lfloor>x\<rfloor> = x \<and> nat \<lfloor>x\<rfloor> < length priorityNames")
    case True
    define i where "i = \<lfloor>x\<rfloor>"
    from True have xi: "x = of_int i" and "0 \<le> i" and "i < 3"
      unfolding i_def len by linarith+
    then have "i = 0 \<or> i = 1 \<or> i = 2" by linarith
    then show ?thesis using Num xi by (auto simp: priorityNames_def)
  next
    case False
    then have "arrayIndex priorityNames (Num x) = JUndefined"
      unfolding arrayIndex.simps by (simp only: if_False)
    moreover from False have "x \<noteq> 0" "x \<noteq> 1" "x \<noteq> 2" unfolding len by auto
    ultimately show ?thesis using Num by simp
  qed
qed simp_all

subsection \<open>Late completions, and the render before its effects\<close>

lemma step_TagsResolved:
  "0 < pendingTagsFetches s \<Longrightarrow>
     step an (TagsResolved v) s
       = loadTags_resolved v (s\<lparr>pendingTagsFetches := pendingTagsFetches s - 1\<rparr>)"
  by (simp add: step_def runEffects_def Let_def loadTags_resolved_def tagsEffect_def
      loadTags_def)

lemma step_TagsRejected:
  "0 < pendingTagsFetches s \<Longrightarrow>
     step an TagsRejected s
       = loadTags_rejected (s\<lparr>pendingTagsFetches := pendingTagsFetches s - 1\<rparr>)"
  by (simp add: step_def runEffects_def Let_def loadTags_rejected_def tagsEffect_def
      loadTags_def emit_def)

lemma settle_fields:
  "isOpen (loadTags_resolved v s) = isOpen s" "tagsLoaded (loadTags_resolved v s)"
  "fetchTagsCount (loadTags_resolved v s) = fetchTagsCount s"
  "isOpen (loadTags_rejected s) = isOpen s" "tagsLoaded (loadTags_rejected s)"
  "fetchTagsCount (loadTags_rejected s) = fetchTagsCount s"
  by (simp_all add: loadTags_resolved_def loadTags_rejected_def)

lemma late_tags_then_open:
  assumes "\<not> isOpen s" and "0 < pendingTagsFetches s"
  shows "fetchTagsCount (run an [TagsResolved v, ParentRender True t pc] s) = fetchTagsCount s"
    and "fetchTagsCount (run an [TagsRejected, ParentRender True t pc] s) = fetchTagsCount s"
  using assms
  by (simp_all add: step_TagsResolved step_TagsRejected opening_fetchTags settle_fields)

lemma closeTimer_then_open:
  assumes "0 < pendingCloseTimers s"
  shows "fetchTagsCount (run an [CloseTimerFired, ParentRender True t pc] s)
           = fetchTagsCount s + 1"
proof -
  have c: "\<not> isOpen (step an CloseTimerFired s)" "\<not> tagsLoaded (step an CloseTimerFired s)"
    using assms by (simp_all add: step_def handleClose_timeout_def onClose_def)
  from c(1) have "\<not> isOpen (handle an CloseTimerFired s)"
    by (simp add: step_isOpen del: handle.simps)
  then have "fetchTagsCount (step an CloseTimerFired s) = fetchTagsCount s"
    by (simp add: step_def runEffects_fetchTagsCount del: handle.simps)
  with c show ?thesis by (simp add: opening_fetchTags)
qed


lemma exampleClosedEarly_tags:
  "\<not> tagsLoaded exampleClosedEarly" "pendingTagsFetches exampleClosedEarly = 1"
  "fetchTagsCount exampleClosedEarly = 1"
  by (simp_all add: exampleClosedEarly_def step_HandleClose step_CloseTimerFired
      exampleOpened_fields handleClose_def handleClose_timeout_def onClose_def emit_def
      closed_taskEffect fetchTagsCount_def)

lemma exampleLoaded_tags:
  "pendingTagsFetches exampleLoaded = 1" "fetchTagsCount exampleLoaded = 1"
  by (simp_all add: exampleLoaded_def step_FetchParentResolved exampleOpened_fields
      fetchParentTask_resolved_def fetchTagsCount_def)

lemma exampleParentOpened_fields:
  "\<not> isOpen exampleParentOpened" "tagsLoaded exampleParentOpened"
  "fetchTagsCount exampleParentOpened = 1"
  by (simp_all add: exampleParentOpened_def step_TagsResolved exampleLoaded_tags
      exampleLoaded_fields step_HandleEditParent loadTags_resolved_def closed_taskEffect
      onClose_def emit_def fetchTagsCount_def)

section \<open>Properties of the editing session\<close>

text \<open>
  C1, as the code has it. With a parent loaded, one call of
  \<^verbatim>\<open>handleParentRecurrenceChange\<close> writes the field and value into the parent snapshot
  and into the form data, together with \<^verbatim>\<open>update_parent_recurrence = true\<close>: the event
  is a single state change, so no state has one of the two without the other. In the form
  data the flag is written after the field, so it is \<^verbatim>\<open>true\<close> also when the field edited
  is the flag itself. A \<^verbatim>\<open>handleSubmit\<close> that follows hands \<^verbatim>\<open>onSave\<close> a payload with
  \<^verbatim>\<open>update_parent_recurrence = true\<close> and, for every field other than \<^verbatim>\<open>tags\<close> and the
  flag, the edited value; the payload's \<^verbatim>\<open>tags\<close> are always rebuilt from the modal's own
  tag list.
\<close>

theorem parent_edit_then_submit:
  "isOpen s \<Longrightarrow> parentTask s = Some p \<Longrightarrow>
     step an (HandleParentRecurrenceChange field v) s = handleParentRecurrenceChange field v s
   \<and> parentTask (handleParentRecurrenceChange field v s) = Some (p(field \<mapsto> v))
   \<and> formData (handleParentRecurrenceChange field v s)
        = (formData s)(field \<mapsto> v, ''update_parent_recurrence'' \<mapsto> JBool True)
   \<and> (field \<noteq> ''update_parent_recurrence'' \<longrightarrow>
        getProp (formData (handleParentRecurrenceChange field v s)) field = v)
   \<and> calls (step an HandleSubmit (handleParentRecurrenceChange field v s))
        = calls s @ [OnSave (submitPayload (handleParentRecurrenceChange field v s)),
                     ShowSuccessToast]
   \<and> getProp (submitPayload (handleParentRecurrenceChange field v s))
        ''update_parent_recurrence'' = JBool True
   \<and> (field \<noteq> ''tags'' \<and> field \<noteq> ''update_parent_recurrence'' \<longrightarrow>
        getProp (submitPayload (handleParentRecurrenceChange field v s)) field = v)
   \<and> getProp (submitPayload (handleParentRecurrenceChange field v s)) ''tags''
        = tagObjects (tags s)"
  by (simp add: step_HandleParentRecurrenceChange step_HandleSubmit
      handleParentRecurrenceChange_fields handleSubmit_calls submitPayload_props getProp_upd)

theorem parent_edit_then_submit_witness:
  "isOpen exampleLoaded \<and> parentTask exampleLoaded = Some exampleParent
   \<and> parentTask (step exampleAnalyzer
         (HandleParentRecurrenceChange ''recurrence_type'' (JStr ''weekly'')) exampleLoaded)
       = Some (exampleParent(''recurrence_type'' \<mapsto> JStr ''weekly''))
   \<and> ''recurrence_type'' \<noteq> ''tags'' \<and> ''recurrence_type'' \<noteq> ''update_parent_recurrence''
   \<and> getProp (submitPayload (handleParentRecurrenceChange ''recurrence_type'' (JStr ''weekly'')
        exampleLoaded)) ''recurrence_type'' = JStr ''weekly''
   \<and> getProp (submitPayload (handleParentRecurrenceChange ''recurrence_type'' (JStr ''weekly'')
        exampleLoaded)) ''update_parent_recurrence'' = JBool True"
proof -
  have h1: "isOpen exampleLoaded" and h2: "parentTask exampleLoaded = Some exampleParent"
    by (simp_all add: exampleLoaded_fields)
  show ?thesis
    using parent_edit_then_submit
      [OF h1 h2, of exampleAnalyzer "''recurrence_type''" "JStr ''weekly''"] h1 h2
    by simp
qed

text \<open>
  C1 as stated fails for the field \<^verbatim>\<open>tags\<close>: with the parent loaded, the edit
  \<^verbatim>\<open>tags = [{name: 'rent'}]\<close> followed by a submit sends a payload whose \<^verbatim>\<open>tags\<close> are
  the empty list of the modal's tag cell, not the edited value.
\<close>

theorem parent_edit_then_submit_counterexample:
  "isOpen exampleLoaded \<and> parentTask exampleLoaded = Some exampleParent
   \<and> map (\<lambda>payload. getProp payload ''tags'')
        (savedPayloads (calls (run exampleAnalyzer
           [HandleParentRecurrenceChange ''tags'' exampleTags, HandleSubmit] exampleLoaded)))
      = [JArr []]
   \<and> exampleTags \<noteq> JArr []"
  by (simp add: exampleLoaded_fields step_HandleParentRecurrenceChange step_HandleSubmit
      handleParentRecurrenceChange_fields handleSubmit_calls submitPayload_props
      tagObjects_def exampleTags_def)

text \<open>
  C2, as the code has it. When the session is closed while the fetch of the parent is
  pending, it stays \<^verbatim>\<open>Closed\<close> whenever the fetch settles. The result is not discarded:
  no check of \<^verbatim>\<open>isOpen\<close> follows the \<^verbatim>\<open>await\<close>, so a fetch that succeeds stores the fetched
  task in the parent cell and clears the loading flag.
\<close>

theorem late_parent_fetch_is_applied:
  "\<not> isOpen s \<Longrightarrow> 0 < pendingParentFetches s \<Longrightarrow>
     sessionState (step an (FetchParentResolved p) s) = Closed
   \<and> sessionState (step an FetchParentRejected s) = Closed
   \<and> parentTask (step an (FetchParentResolved p) s) = Some p
   \<and> parentTaskLoading (step an (FetchParentResolved p) s) = False"
  by (simp add: modal_defs sessionState_def)

theorem late_parent_fetch_is_applied_witness:
  "\<not> isOpen exampleClosedEarly \<and> 0 < pendingParentFetches exampleClosedEarly
   \<and> sessionState (step exampleAnalyzer (FetchParentResolved exampleParent) exampleClosedEarly)
        = Closed
   \<and> parentTaskLoading (step exampleAnalyzer (FetchParentResolved exampleParent)
        exampleClosedEarly) = False"
proof -
  have h1: "\<not> isOpen exampleClosedEarly" and h2: "0 < pendingParentFetches exampleClosedEarly"
    by (simp_all add: exampleClosedEarly_fields)
  show ?thesis
    using late_parent_fetch_is_applied [OF h1 h2, of exampleAnalyzer exampleParent] h1 h2
    by simp
qed

text \<open>
  C2 as stated fails: the sample session is cancelled while the parent is being fetched;
  it is \<^verbatim>\<open>Closed\<close> with no parent, and when the fetch then succeeds the parent cell holds
  the fetched task.
\<close>

theorem late_parent_fetch_counterexample:
  "sessionState exampleClosedEarly = Closed
   \<and> 0 < pendingParentFetches exampleClosedEarly
   \<and> parentTask exampleClosedEarly = None
   \<and> parentTask (step exampleAnalyzer (FetchParentResolved exampleParent) exampleClosedEarly)
        = Some exampleParent"
  by (simp add: step_FetchParentResolved fetchParentTask_resolved_def sessionState_def
      exampleClosedEarly_fields)

text \<open>
  C3. When the fetch of the parent fails while the session is open (the task referenced by
  \<^verbatim>\<open>recurring_parent_id\<close> was deleted, say), the session is in \<^verbatim>\<open>Open(no-parent)\<close>: the
  parent is \<^verbatim>\<open>null\<close> and the loading flag is off. The error is written to the console,
  that is the only call made, no toast is shown, and the session stays open.
\<close>

theorem parent_fetch_failure_no_parent:
  "isOpen s \<Longrightarrow> 0 < pendingParentFetches s \<Longrightarrow>
     sessionState (step an FetchParentRejected s) = OpenNoParent
   \<and> parentTask (step an FetchParentRejected s) = None
   \<and> isOpen (step an FetchParentRejected s)
   \<and> calls (step an FetchParentRejected s)
        = calls s @ [ConsoleError ''Error fetching parent task:'']
   \<and> userMessages (calls (step an FetchParentRejected s)) = userMessages (calls s)"
  by (simp add: modal_defs userMessages_def sessionState_def)

theorem parent_fetch_failure_no_parent_witness:
  "isOpen exampleOpened \<and> 0 < pendingParentFetches exampleOpened
   \<and> sessionState exampleOpened = OpenParentLoading
   \<and> sessionState (step exampleAnalyzer FetchParentRejected exampleOpened) = OpenNoParent
   \<and> userMessages (calls (step exampleAnalyzer FetchParentRejected exampleOpened)) = []"
proof -
  have h1: "isOpen exampleOpened" and h2: "0 < pendingParentFetches exampleOpened"
    by (simp_all add: exampleOpened_fields)
  have st: "sessionState exampleOpened = OpenParentLoading"
    by (simp add: sessionState_def exampleOpened_fields)
  have um: "userMessages (calls exampleOpened) = []"
    by (simp add: userMessages_def exampleOpened_fields)
  note after = parent_fetch_failure_no_parent [OF h1 h2, of exampleAnalyzer]
  from after have "sessionState (step exampleAnalyzer FetchParentRejected exampleOpened)
      = OpenNoParent"
    by blast
  moreover from after
  have "userMessages (calls (step exampleAnalyzer FetchParentRejected exampleOpened))
      = userMessages (calls exampleOpened)"
    by blast
  with um
  have "userMessages (calls (step exampleAnalyzer FetchParentRejected exampleOpened)) = []"
    by simp
  ultimately show ?thesis using h1 h2 st by blast
qed

text \<open>
  C4. For a task whose \<^verbatim>\<open>recurring_parent_id\<close> is \<^verbatim>\<open>null\<close>, \<^verbatim>\<open>undefined\<close> or missing,
  \<^verbatim>\<open>fetchParentTask\<close> sets the parent to \<^verbatim>\<open>null\<close> and calls nothing. So opening the modal
  on such a task, or mounting it, leaves no parent, adds no call of \<^verbatim>\<open>fetchTaskById\<close> and
  no pending fetch.
\<close>

theorem no_parent_id_no_fetch:
  "getProp t ''recurring_parent_id'' \<in> {JNull, JUndefined} \<Longrightarrow>
     (task s = t \<longrightarrow>
        parentTask (fetchParentTask s) = None \<and> calls (fetchParentTask s) = calls s
        \<and> pendingParentFetches (fetchParentTask s) = pendingParentFetches s)
   \<and> (\<not> isOpen s \<longrightarrow>
        parentTask (step an (ParentRender True (Some t) pc) s) = None
        \<and> parentFetches (step an (ParentRender True (Some t) pc) s) = parentFetches s
        \<and> pendingParentFetches (step an (ParentRender True (Some t) pc) s)
             = pendingParentFetches s)
   \<and> parentTask (mount an opn t edit) = None
   \<and> parentFetches (mount an opn t edit) = []
   \<and> pendingParentFetches (mount an opn t edit) = 0"
proof -
  assume absent: "getProp t ''recurring_parent_id'' \<in> {JNull, JUndefined}"
  then have nt: "\<not> truthy (getProp t ''recurring_parent_id'')" by auto
  have a: "task s = t \<longrightarrow>
        parentTask (fetchParentTask s) = None \<and> calls (fetchParentTask s) = calls s
        \<and> pendingParentFetches (fetchParentTask s) = pendingParentFetches s"
    using nt by (simp add: fetchParentTask_def)
  have b: "\<not> isOpen s \<longrightarrow>
        parentTask (step an (ParentRender True (Some t) pc) s) = None
        \<and> parentFetches (step an (ParentRender True (Some t) pc) s) = parentFetches s
        \<and> pendingParentFetches (step an (ParentRender True (Some t) pc) s)
             = pendingParentFetches s"
    using nt by (simp add: step_def runEffects_opening taskEffect_parent parentFetches_update)
  have c: "parentTask (mount an opn t edit) = None
   \<and> parentFetches (mount an opn t edit) = []
   \<and> pendingParentFetches (mount an opn t edit) = 0"
    using nt by (simp add: mount_def taskEffect_parent) (simp add: initial_def parentFetches_def)
  from a b c show ?thesis by blast
qed

theorem no_parent_id_no_fetch_witness:
  "getProp exampleUntitled ''recurring_parent_id'' \<in> {JNull, JUndefined}
   \<and> \<not> isOpen exampleClosed
   \<and> parentTask (step exampleAnalyzer (ParentRender True (Some exampleUntitled) False)
        exampleClosed) = None
   \<and> parentFetches (step exampleAnalyzer (ParentRender True (Some exampleUntitled) False)
        exampleClosed) = []
   \<and> parentFetches (mount exampleAnalyzer True exampleUntitled False) = []"
proof -
  have h: "getProp exampleUntitled ''recurring_parent_id'' \<in> {JNull, JUndefined}"
    by (simp add: getProp_def exampleUntitled_def)
  have c: "\<not> isOpen exampleClosed" and f: "parentFetches exampleClosed = []"
    by (simp_all add: exampleClosed_fields parentFetches_def)
  show ?thesis
    using no_parent_id_no_fetch [OF h, of exampleClosed exampleAnalyzer False True False] h c f
    by simp
qed

text \<open>
  C5, as the code has it. With a parent loaded and the \<^verbatim>\<open>onEditParentTask\<close> callback
  given, \<^verbatim>\<open>handleEditParent\<close> first calls \<^verbatim>\<open>onEditParentTask(parentTask)\<close> and then
  \<^verbatim>\<open>onClose()\<close>, which closes the session; nothing else is called. With a parent loaded
  but no callback given it does nothing. With no parent loaded the recurrence section is
  given no \<^verbatim>\<open>onEditParent\<close> at all, and the handler itself does nothing.
\<close>

theorem edit_parent_signals_then_closes:
  "(isOpen s \<and> parentTask s = Some p \<and> hasOnEditParentTask s \<longrightarrow>
      offersParentOperations s
      \<and> calls (step an HandleEditParent s) = calls s @ [OnEditParentTask p, OnClose]
      \<and> sessionState (step an HandleEditParent s) = Closed)
   \<and> (parentTask s = Some p \<and> \<not> hasOnEditParentTask s \<longrightarrow>
        handleEditParent s = s \<and> step an HandleEditParent s = s)
   \<and> (parentTask s = None \<longrightarrow>
        \<not> offersParentOperations s \<and> handleEditParent s = s \<and> step an HandleEditParent s = s)"
  by (simp add: step_HandleEditParent step_HandleEditParent_noop offersParentOperations_def
      handleEditParent_def closed_taskEffect onClose_def emit_def sessionState_def)

theorem edit_parent_signals_then_closes_witness:
  "isOpen exampleLoaded \<and> parentTask exampleLoaded = Some exampleParent
   \<and> hasOnEditParentTask exampleLoaded
   \<and> sessionState (step exampleAnalyzer HandleEditParent exampleLoaded) = Closed
   \<and> parentTask exampleOpened = None
   \<and> \<not> offersParentOperations exampleOpened
   \<and> step exampleAnalyzer HandleEditParent exampleOpened = exampleOpened"
  using edit_parent_signals_then_closes [of exampleLoaded exampleParent exampleAnalyzer]
    edit_parent_signals_then_closes [of exampleOpened exampleParent exampleAnalyzer]
  by (simp add: exampleLoaded_fields exampleOpened_fields)

text \<open>
  C5 as stated fails on the order: in the sample session with the parent loaded, the calls
  made by \<^verbatim>\<open>handleEditParent\<close> are \<^verbatim>\<open>onEditParentTask\<close> and then \<^verbatim>\<open>onClose\<close>; no close
  comes before the signal.
\<close>

theorem edit_parent_order_counterexample:
  "isOpen exampleLoaded \<and> parentTask exampleLoaded = Some exampleParent
   \<and> drop (length (calls exampleLoaded))
        (calls (step exampleAnalyzer HandleEditParent exampleLoaded))
      = [OnEditParentTask exampleParent, OnClose]
   \<and> \<not> closesBeforeSignal (drop (length (calls exampleLoaded))
        (calls (step exampleAnalyzer HandleEditParent exampleLoaded)))"
  by (simp add: step_HandleEditParent exampleLoaded_fields closed_taskEffect onClose_def
      emit_def closesBeforeSignal_def)

text \<open>
  C6. When the fetch of the task-intelligence setting fails, the setting is \<^verbatim>\<open>true\<close>
  afterwards; the error is written to the console, no toast is shown and the session is
  open or closed as before.
\<close>

theorem flag_fetch_failure_defaults_to_enabled:
  "0 < pendingFlagFetches s \<Longrightarrow>
     taskIntelligenceEnabled (step an FlagRejected s)
   \<and> ConsoleError ''Error fetching task intelligence setting:''
        \<in> set (calls (step an FlagRejected s))
   \<and> userMessages (calls (step an FlagRejected s)) = userMessages (calls s)
   \<and> isOpen (step an FlagRejected s) = isOpen s"
  by (simp add: modal_defs userMessages_def)

theorem flag_fetch_failure_defaults_to_enabled_witness:
  "0 < pendingFlagFetches exampleOpened
   \<and> taskIntelligenceEnabled (step exampleAnalyzer FlagRejected exampleOpened)
   \<and> userMessages (calls (step exampleAnalyzer FlagRejected exampleOpened)) = []
   \<and> isOpen (step exampleAnalyzer FlagRejected exampleOpened)"
proof -
  have h: "0 < pendingFlagFetches exampleOpened"
    by (simp add: exampleOpened_fields)
  have um: "userMessages (calls exampleOpened) = []"
    by (simp add: userMessages_def exampleOpened_fields)
  show ?thesis
    using flag_fetch_failure_defaults_to_enabled [OF h, of exampleAnalyzer] h um
    by (simp add: exampleOpened_fields)
qed




text \<open>
  C8. Choosing the status \<^verbatim>\<open>in_progress\<close> writes \<^verbatim>\<open>today = true\<close> into the form data in
  the same update that writes the status; choosing any other status writes the status and
  leaves \<^verbatim>\<open>today\<close> as it was (absent if it was absent).
\<close>

theorem status_in_progress_sets_today:
  "isOpen s \<Longrightarrow>
     getProp (formData (step an (OnStatusChange v) s)) ''status'' = JStr v
   \<and> (v = ''in_progress'' \<longrightarrow>
        getProp (formData (step an (OnStatusChange v) s)) ''today'' = JBool True)
   \<and> (v \<noteq> ''in_progress'' \<longrightarrow>
        formData (step an (OnStatusChange v) s) ''today'' = formData s ''today'')"
  by (simp add: modal_defs getProp_def)

theorem status_in_progress_sets_today_witness:
  "isOpen exampleOpened
   \<and> getProp (formData (step exampleAnalyzer (OnStatusChange ''in_progress'') exampleOpened))
        ''today'' = JBool True
   \<and> ''done'' \<noteq> ''in_progress''
   \<and> getProp (formData (step exampleAnalyzer (OnStatusChange ''done'') exampleOpened))
        ''status'' = JStr ''done''
   \<and> formData (step exampleAnalyzer (OnStatusChange ''done'') exampleOpened) ''today'' = None"
  using status_in_progress_sets_today [of exampleOpened exampleAnalyzer "''in_progress''"]
    status_in_progress_sets_today [of exampleOpened exampleAnalyzer "''done''"]
  by (simp add: exampleOpened_fields exampleChild_def)

text \<open>
  C9. \<^verbatim>\<open>getPriorityString\<close> returns a value for every argument. The numbers 0, 1 and 2
  give \<^verbatim>\<open>'low'\<close>, \<^verbatim>\<open>'medium'\<close> and \<^verbatim>\<open>'high'\<close>; every other number (negative, 3 or more,
  fractional, \<^verbatim>\<open>NaN\<close>, infinite) gives \<^verbatim>\<open>'medium'\<close>; \<^verbatim>\<open>undefined\<close> gives \<^verbatim>\<open>'medium'\<close>; a
  priority string is returned as it is; and for every argument of the declared type
  \<^verbatim>\<open>PriorityType | number | undefined\<close> the result is one of the three priority strings.
\<close>

theorem getPriorityString_range:
  "getPriorityString (JNum (Num 0)) = JStr ''low''
   \<and> getPriorityString (JNum (Num 1)) = JStr ''medium''
   \<and> getPriorityString (JNum (Num 2)) = JStr ''high''
   \<and> (n \<notin> {Num 0, Num 1, Num 2} \<longrightarrow> getPriorityString (JNum n) = JStr ''medium'')
   \<and> getPriorityString JUndefined = JStr ''medium''
   \<and> (isPriorityType v \<longrightarrow> getPriorityString v = v)
   \<and> (isPriorityArg v \<longrightarrow> isPriorityType (getPriorityString v))"
  by (cases v)
    (auto simp: getPriorityString_def arrayIndex_priorityNames isPriorityType_def
      isPriorityArg_def simp del: arrayIndex.simps)

theorem getPriorityString_range_witness:
  "Num (3/2) \<notin> {Num 0, Num 1, Num 2}
   \<and> getPriorityString (JNum (Num (3/2))) = JStr ''medium''
   \<and> Num (-1) \<notin> {Num 0, Num 1, Num 2}
   \<and> getPriorityString (JNum (Num (-1))) = JStr ''medium''
   \<and> isPriorityType (JStr ''high'') \<and> getPriorityString (JStr ''high'') = JStr ''high''
   \<and> isPriorityArg (JNum NaN) \<and> isPriorityType (getPriorityString (JNum NaN))"
  using getPriorityString_range [of "Num (3/2)" "JStr ''high''"]
    getPriorityString_range [of "Num (-1)" "JNum NaN"]
  by (simp add: isPriorityType_def isPriorityArg_def)

text \<open>
  C10, as the code has it. Opening the modal calls \<^verbatim>\<open>fetchTags\<close> once if the guard
  \<^verbatim>\<open>tagsLoaded\<close> is off and not at all if it is on, and so does mounting it open; as long
  as the session stays open no event adds a call, whatever the events are. When the fetch
  settles the guard is on, with the fetched list or, after an error, with the empty list,
  a console message and no toast. The timer started by \<^verbatim>\<open>handleClose\<close> closes the session
  and switches the guard off, so that opening the modal next calls \<^verbatim>\<open>fetchTags\<close> again;
  but a fetch of the tags that settles while the session is closed switches the guard on
  again, and opening the modal after that calls nothing.
\<close>

theorem tags_fetched_once_per_session:
  "(\<not> isOpen s \<and> staysOpen an es (step an (ParentRender True t pc) s) \<longrightarrow>
      fetchTagsCount (run an es (step an (ParentRender True t pc) s))
        = fetchTagsCount s + (if tagsLoaded s then 0 else 1))
   \<and> (staysOpen an es (mount an True t0 edit) \<longrightarrow>
        fetchTagsCount (run an es (mount an True t0 edit)) = 1)
   \<and> (staysOpen an es s \<longrightarrow> fetchTagsCount (run an es s) = fetchTagsCount s)
   \<and> (0 < pendingTagsFetches s \<longrightarrow>
        tagsLoaded (step an (TagsResolved v) s)
        \<and> tagsLoaded (step an TagsRejected s)
        \<and> localAvailableTags (step an TagsRejected s) = []
        \<and> userMessages (calls (step an TagsRejected s)) = userMessages (calls s))
   \<and> (0 < pendingCloseTimers s \<longrightarrow>
        \<not> tagsLoaded (step an CloseTimerFired s) \<and> \<not> isOpen (step an CloseTimerFired s)
        \<and> fetchTagsCount (run an [CloseTimerFired, ParentRender True t pc] s)
             = fetchTagsCount s + 1)
   \<and> (\<not> isOpen s \<and> 0 < pendingTagsFetches s \<longrightarrow>
        \<not> isOpen (step an (TagsResolved v) s) \<and> \<not> isOpen (step an TagsRejected s)
        \<and> fetchTagsCount (run an [TagsResolved v, ParentRender True t pc] s)
             = fetchTagsCount s
        \<and> fetchTagsCount (run an [TagsRejected, ParentRender True t pc] s)
             = fetchTagsCount s)"
proof -
  have a: "\<not> isOpen s \<and> staysOpen an es (step an (ParentRender True t pc) s) \<longrightarrow>
      fetchTagsCount (run an es (step an (ParentRender True t pc) s))
        = fetchTagsCount s + (if tagsLoaded s then 0 else 1)"
    using run_open_no_fetchTags [of an es "step an (ParentRender True t pc) s"]
      opening_fetchTags [of s an t pc]
    by simp
  have b: "staysOpen an es (mount an True t0 edit) \<longrightarrow>
        fetchTagsCount (run an es (mount an True t0 edit)) = 1"
    using run_open_no_fetchTags [of an es "mount an True t0 edit"]
    by (simp add: mount_fetchTagsCount)
  have c: "staysOpen an es s \<longrightarrow> fetchTagsCount (run an es s) = fetchTagsCount s"
    by (simp add: run_open_no_fetchTags)
  have d: "0 < pendingTagsFetches s \<longrightarrow>
        tagsLoaded (step an (TagsResolved v) s)
        \<and> tagsLoaded (step an TagsRejected s)
        \<and> localAvailableTags (step an TagsRejected s) = []
        \<and> userMessages (calls (step an TagsRejected s)) = userMessages (calls s)"
    by (simp add: modal_defs userMessages_def)
  have e: "0 < pendingCloseTimers s \<longrightarrow>
        \<not> tagsLoaded (step an CloseTimerFired s) \<and> \<not> isOpen (step an CloseTimerFired s)
        \<and> fetchTagsCount (run an [CloseTimerFired, ParentRender True t pc] s)
             = fetchTagsCount s + 1"
    using closeTimer_then_open [of s an t pc]
    by (simp add: step_def handleClose_timeout_def onClose_def)
  have f: "\<not> isOpen s \<and> 0 < pendingTagsFetches s \<longrightarrow>
        \<not> isOpen (step an (TagsResolved v) s) \<and> \<not> isOpen (step an TagsRejected s)
        \<and> fetchTagsCount (run an [TagsResolved v, ParentRender True t pc] s)
             = fetchTagsCount s
        \<and> fetchTagsCount (run an [TagsRejected, ParentRender True t pc] s)
             = fetchTagsCount s"
    using late_tags_then_open(1) [of s an v t pc] late_tags_then_open(2) [of s an t pc]
    by (simp add: step_TagsResolved step_TagsRejected settle_fields)
  from a b c d e f show ?thesis by blast
qed

theorem tags_fetched_once_per_session_witness:
  "\<not> isOpen exampleClosed
   \<and> staysOpen exampleAnalyzer [TagsRejected, HandleChange ''name'' ''Pay rent'', HandleClose]
        (step exampleAnalyzer (ParentRender True None False) exampleClosed)
   \<and> fetchTagsCount (run exampleAnalyzer
        [TagsRejected, HandleChange ''name'' ''Pay rent'', HandleClose]
        (step exampleAnalyzer (ParentRender True None False) exampleClosed)) = 1
   \<and> 0 < pendingTagsFetches exampleOpened
   \<and> tagsLoaded (step exampleAnalyzer TagsRejected exampleOpened)
   \<and> 0 < pendingCloseTimers (handleClose exampleOpened)
   \<and> \<not> tagsLoaded (step exampleAnalyzer CloseTimerFired (handleClose exampleOpened))
   \<and> \<not> isOpen exampleClosedEarly \<and> 0 < pendingTagsFetches exampleClosedEarly
   \<and> fetchTagsCount (run exampleAnalyzer [TagsResolved (JArr []), ParentRender True None False]
        exampleClosedEarly) = 1"
proof -
  have c: "\<not> isOpen exampleClosed" "\<not> tagsLoaded exampleClosed"
    "fetchTagsCount exampleClosed = 0"
    by (simp_all add: exampleClosed_fields)
  have o: "staysOpen exampleAnalyzer
      [TagsRejected, HandleChange ''name'' ''Pay rent'', HandleClose]
      (step exampleAnalyzer (ParentRender True None False) exampleClosed)"
    by (simp add: step_isOpen handle_isOpen exampleClosed_fields del: handle.simps)
  have p: "0 < pendingTagsFetches exampleOpened"
    by (simp add: exampleOpened_fields)
  have q: "0 < pendingCloseTimers (handleClose exampleOpened)"
    by (simp add: handleClose_def)
  have l: "\<not> isOpen exampleClosedEarly" "0 < pendingTagsFetches exampleClosedEarly"
    "fetchTagsCount exampleClosedEarly = 1"
    by (simp_all add: exampleClosedEarly_fields exampleClosedEarly_tags)
  show ?thesis
    using c o p q l
      tags_fetched_once_per_session [where s = exampleClosed and an = exampleAnalyzer
        and es = "[TagsRejected, HandleChange ''name'' ''Pay rent'', HandleClose]"
        and t = None and pc = False]
      tags_fetched_once_per_session [where s = exampleOpened and an = exampleAnalyzer
        and es = "[]"]
      tags_fetched_once_per_session [where s = "handleClose exampleOpened"
        and an = exampleAnalyzer and es = "[]"]
      tags_fetched_once_per_session [where s = exampleClosedEarly and an = exampleAnalyzer
        and es = "[]" and v = "JArr []" and t = None and pc = False]
    by (simp del: run.simps)
qed

text \<open>
  C10 as stated fails on the reset of the guard. The sample session is cancelled through
  \<^verbatim>\<open>handleClose\<close> while the tags are being fetched: the guard is off when the timer has
  closed it, the fetch then settles and the guard is on, and opening the modal again calls
  no \<^verbatim>\<open>fetchTags\<close>. And when the session with the tags loaded is closed through
  \<^verbatim>\<open>handleEditParent\<close>, the guard is still on after the close and opening the modal
  again calls no \<^verbatim>\<open>fetchTags\<close> either.
\<close>

theorem tags_guard_reset_counterexample:
  "\<not> isOpen exampleClosedEarly \<and> \<not> tagsLoaded exampleClosedEarly
   \<and> 0 < pendingTagsFetches exampleClosedEarly
   \<and> \<not> isOpen (step exampleAnalyzer (TagsResolved (JArr [])) exampleClosedEarly)
   \<and> tagsLoaded (step exampleAnalyzer (TagsResolved (JArr [])) exampleClosedEarly)
   \<and> isOpen (run exampleAnalyzer [TagsResolved (JArr []), ParentRender True None False]
        exampleClosedEarly)
   \<and> fetchTagsCount (run exampleAnalyzer [TagsResolved (JArr []), ParentRender True None False]
        exampleClosedEarly) = fetchTagsCount exampleClosedEarly
   \<and> \<not> isOpen exampleParentOpened \<and> tagsLoaded exampleParentOpened
   \<and> isOpen (step exampleAnalyzer (ParentRender True None False) exampleParentOpened)
   \<and> fetchTagsCount (step exampleAnalyzer (ParentRender True None False) exampleParentOpened)
        = fetchTagsCount exampleParentOpened"
proof -
  have l: "\<not> isOpen exampleClosedEarly" "\<not> tagsLoaded exampleClosedEarly"
    "0 < pendingTagsFetches exampleClosedEarly"
    by (simp_all add: exampleClosedEarly_fields exampleClosedEarly_tags)
  have s: "\<not> isOpen (step exampleAnalyzer (TagsResolved (JArr [])) exampleClosedEarly)"
    "tagsLoaded (step exampleAnalyzer (TagsResolved (JArr [])) exampleClosedEarly)"
    using l by (simp_all add: step_TagsResolved settle_fields)
  have r: "fetchTagsCount (run exampleAnalyzer
        [TagsResolved (JArr []), ParentRender True None False] exampleClosedEarly)
      = fetchTagsCount exampleClosedEarly"
    by (rule late_tags_then_open(1) [OF l(1) l(3)])
  have o: "isOpen (run exampleAnalyzer [TagsResolved (JArr []), ParentRender True None False]
        exampleClosedEarly)"
    by (simp add: step_isOpen)
  have e: "\<not> isOpen exampleParentOpened" "tagsLoaded exampleParentOpened"
    by (simp_all add: exampleParentOpened_fields)
  have f: "fetchTagsCount (step exampleAnalyzer (ParentRender True None False)
        exampleParentOpened) = fetchTagsCount exampleParentOpened"
    using e by (simp add: opening_fetchTags)
  have g: "isOpen (step exampleAnalyzer (ParentRender True None False) exampleParentOpened)"
    by (simp add: step_isOpen)
  from l s r o e f g show ?thesis by blast
qed

end
